theory Spec2Isabelle
  imports Complex_Main "HOL-Library.AList"
begin

section \<open>Python strings\<close>

text \<open>
  A Python \<open>str\<close> is a sequence of Unicode code points; \<open>len\<close> and slicing count code
  points. The literals of \<open>scripts/digest.py\<close> use characters outside ASCII, so a
  string is the list of its code points. \<open>str\<close> embeds an ASCII literal; other
  characters are written as numbers (\<open>10\<close> is the newline, \<open>39\<close> the apostrophe,
  \<open>34\<close> the double quote, \<open>8212\<close> the em dash).
\<close>

type_synonym pystr = "nat list"

definition str :: "string \<Rightarrow> pystr" where
  "str s = map of_char s"

text \<open>The characters \<open>str.strip()\<close> removes: those for which \<open>str.isspace\<close> holds.\<close>

definition isspace :: "nat \<Rightarrow> bool" where
  "isspace c \<longleftrightarrow>
     c \<in> {9, 10, 11, 12, 13, 28, 29, 30, 31, 32, 133, 160, 5760} \<union> {8192 ..< 8203}
         \<union> {8232, 8233, 8239, 8287, 12288}"

definition strip :: "pystr \<Rightarrow> pystr" where
  "strip s = rev (dropWhile isspace (rev (dropWhile isspace s)))"

text \<open>\<open>sep.join(xs)\<close>.\<close>

fun join :: "pystr \<Rightarrow> pystr list \<Rightarrow> pystr" where
  "join sep [] = []"
| "join sep [x] = x"
| "join sep (x # y # ys) = x @ sep @ join sep (y # ys)"

text \<open>\<open>a or b\<close> on strings: the empty string is the only false one.\<close>

definition or_else :: "pystr \<Rightarrow> pystr \<Rightarrow> pystr" where
  "or_else a b = (if a = [] then b else a)"

section \<open>Configuration constants\<close>

definition MODEL :: pystr where
  "MODEL = str ''claude-sonnet-4-6''"

text \<open>\<open>MAX_LOG_LINES = 80\<close>, as the f-string of the log command renders it.\<close>

definition MAX_LOG_LINES :: pystr where
  "MAX_LOG_LINES = str ''80''"

section \<open>The run's environment and its trace\<close>

text \<open>
  What a run does to the outside world is recorded as a trace of events, in order:
  a line passed to \<open>log\<close>, a command passed to \<open>run\<close>, a prompt passed to
  \<open>call_claude\<close>, a text passed to \<open>tg\<close>, and a chunk posted to the Telegram endpoint
  by \<open>urlopen\<close> inside \<open>tg\<close>. The timestamp \<open>log\<close> puts in front of a line is left out.
\<close>

datatype event =
    Log pystr
  | Probe pystr
  | Claude pystr
  | Tg pystr
  | Post pystr

type_synonym trace = "event list"

text \<open>
  The result of \<open>subprocess.run(cmd, shell=True, capture_output=True, text=True)\<close>: a
  completed process with its exit status and decoded output. A non-zero status does not
  raise (no \<open>check=True\<close>).
\<close>

record completed =
  returncode :: int
  stdout :: pystr
  stderr :: pystr

type_synonym shell = "pystr \<Rightarrow> completed"

text \<open>
  One request to the Telegram endpoint either raises (network failure, timeout, HTTP error
  status, a body that is not JSON), with the message of the exception, or yields the
  decoded JSON reply \<open>r\<close>: the truth value of \<open>r.get("ok")\<close> and the text of \<open>r\<close> that an
  f-string prints. The reply may depend on everything the run has done so far.
\<close>

datatype reply = Raises pystr | Json bool pystr

type_synonym telegram_api = "trace \<Rightarrow> pystr \<Rightarrow> reply"

text \<open>
  \<open>call_claude(api_key, prompt)\<close> either raises, with the message of the exception, or
  returns the report text.
\<close>

type_synonym claude_api = "pystr \<Rightarrow> pystr \<Rightarrow> pystr + pystr"

text \<open>
  \<open>config_file\<close>: reading and parsing \<open>/root/.claude.json\<close> either raises (\<open>Inl\<close> the
  message), or gives a dictionary in which \<open>primaryApiKey\<close> is absent (\<open>None\<close>) or holds a
  string. \<open>clock\<close> is the formatted time \<open>now\<close> of the run.
\<close>

record world =
  shell_of :: shell
  config_file :: "pystr + pystr option"
  clock :: pystr
  claude :: claude_api
  telegram :: telegram_api

section \<open>log and run\<close>

definition log :: "pystr \<Rightarrow> trace \<Rightarrow> trace" where
  "log msg tr = tr @ [Log msg]"

text \<open>
  \<open>run(cmd)\<close>: \<open>run_output\<close> is the text it returns, \<open>(r.stdout + r.stderr).strip()\<close>; \<open>run\<close>
  also records the command in the trace.
\<close>

definition run_output :: "shell \<Rightarrow> pystr \<Rightarrow> pystr" where
  "run_output sh cmd = (let r = sh cmd in strip (stdout r @ stderr r))"

definition run :: "shell \<Rightarrow> pystr \<Rightarrow> trace \<Rightarrow> pystr \<times> trace" where
  "run sh cmd tr = (run_output sh cmd, tr @ [Probe cmd])"

section \<open>tg: chunked delivery\<close>

text \<open>\<open>range(start, stop, step)\<close> for a positive step, as the list of its indices.\<close>

function py_range :: "nat \<Rightarrow> nat \<Rightarrow> nat \<Rightarrow> nat list" where
  "py_range start stop step =
     (if 0 < step \<and> start < stop then start # py_range (start + step) stop step else [])"
  by pat_completeness auto
termination
  by (relation "measure (\<lambda>(start, stop, step). stop - start)") auto

declare py_range.simps [simp del]

text \<open>The slice \<open>text[i:j]\<close> for \<open>0 \<le> i \<le> j\<close>; Python clamps both ends at \<open>len(text)\<close>.\<close>

definition slice :: "'a list \<Rightarrow> nat \<Rightarrow> nat \<Rightarrow> 'a list" where
  "slice text i j = take (j - i) (drop i text)"

text \<open>\<^verbatim>\<open>[text[i:i+4000] for i in range(0, len(text), 4000)]\<close>\<close>

definition chunks :: "'a list \<Rightarrow> 'a list list" where
  "chunks text = map (\<lambda>i. slice text i (i + 4000)) (py_range 0 (length text) 4000)"

text \<open>
  The loop of \<open>tg\<close> over the chunks. A request that raises ends the loop, and the
  exception leaves \<open>tg\<close>; a reply whose \<open>ok\<close> is false is logged and the loop goes on.
\<close>

fun tg_loop :: "telegram_api \<Rightarrow> pystr list \<Rightarrow> trace \<Rightarrow> (pystr + unit) \<times> trace" where
  "tg_loop api [] tr = (Inr (), tr)"
| "tg_loop api (chunk # rest) tr =
     (case api tr chunk of
        Raises e \<Rightarrow> (Inl e, tr @ [Post chunk])
      | Json ok r \<Rightarrow>
          tg_loop api rest
            (if \<not> ok then log (str ''TG error: '' @ r) (tr @ [Post chunk])
             else tr @ [Post chunk]))"

definition tg :: "telegram_api \<Rightarrow> pystr \<Rightarrow> trace \<Rightarrow> (pystr + unit) \<times> trace" where
  "tg api text tr = tg_loop api (chunks text) (tr @ [Tg text])"

section \<open>call_claude\<close>

definition call_claude :: "claude_api \<Rightarrow> pystr \<Rightarrow> pystr \<Rightarrow> trace \<Rightarrow> (pystr + pystr) \<times> trace" where
  "call_claude api api_key prompt tr = (api api_key prompt, tr @ [Claude prompt])"

section \<open>collect: the probes and the snapshot\<close>

text \<open>The command lines \<open>collect\<close> passes to \<open>run\<close>, in the order of the source.\<close>

definition cmd_docker_ps :: pystr where
  "cmd_docker_ps = str ''docker ps -a --format '' @ [39] @ str ''table {{.Names}}'' @ [9]
     @ str ''{{.Status}}'' @ [9] @ str ''{{.Image}}'' @ [9] @ str ''{{.Ports}}'' @ [39]"

definition cmd_docker_stats :: pystr where
  "cmd_docker_stats = str ''docker stats --no-stream --format '' @ [39]
     @ str ''{{.Name}}: cpu={{.CPUPerc}} mem={{.MemUsage}} net={{.NetIO}} block={{.BlockIO}}'' @ [39]"

definition cmd_docker_logs :: pystr where
  "cmd_docker_logs = str ''docker logs openclaw-gateway --since 1h 2>&1 | tail -n '' @ MAX_LOG_LINES"

definition cmd_mem :: pystr where
  "cmd_mem = str ''free -h | awk '' @ [39] @ str ''/Mem:/{print $2'' @ [34] @ str '' total, '' @ [34]
     @ str ''$3'' @ [34] @ str '' used, '' @ [34] @ str ''$4'' @ [34] @ str '' free'' @ [34] @ str ''}'' @ [39]"

definition cmd_swap :: pystr where
  "cmd_swap = str ''free -h | awk '' @ [39] @ str ''/Swap:/{print $2'' @ [34] @ str '' total, '' @ [34]
     @ str ''$3'' @ [34] @ str '' used'' @ [34] @ str ''}'' @ [39]"

definition cmd_disk :: pystr where
  "cmd_disk = str ''df -h / | awk '' @ [39] @ str ''NR==2{print $2'' @ [34] @ str '' total, '' @ [34]
     @ str ''$3'' @ [34] @ str '' used, '' @ [34] @ str ''$5'' @ [34] @ str '' use%'' @ [34] @ str ''}'' @ [39]"

definition cmd_load :: pystr where
  "cmd_load = str ''uptime | awk -F'' @ [39] @ str ''load average:'' @ [39] @ str '' '' @ [39]
     @ str ''{print $2}'' @ [39]"

definition cmd_uptime :: pystr where
  "cmd_uptime = str ''uptime -p''"

definition cmd_established :: pystr where
  "cmd_established = str ''ss -tnp state established 2>/dev/null | awk '' @ [39]
     @ str ''NR>1{print $4, '' @ [34, 8594, 34] @ str '', $5, $6}'' @ [39] @ str '' | head -20''"

definition cmd_tcp_total :: pystr where
  "cmd_tcp_total = str ''ss -s | awk '' @ [39] @ str ''/TCP:/{print $0}'' @ [39]"

definition cmd_tcp_estab :: pystr where
  "cmd_tcp_estab = str ''ss -tn state established 2>/dev/null | wc -l''"

definition cmd_tcp_timewait :: pystr where
  "cmd_tcp_timewait = str ''ss -tn state time-wait 2>/dev/null | wc -l''"

definition cmd_tcp_synrecv :: pystr where
  "cmd_tcp_synrecv = str ''ss -tn state syn-recv 2>/dev/null | wc -l''"

definition cmd_top_ips :: pystr where
  "cmd_top_ips = str ''ss -tn state established 2>/dev/null | awk '' @ [39] @ str ''NR>1{print $5}'' @ [39]
     @ str '' | cut -d: -f1 | sort | uniq -c | sort -rn | head -10''"

definition cmd_fail2ban :: pystr where
  "cmd_fail2ban = str ''fail2ban-client status 2>/dev/null | head -5''"

definition cmd_fail2ban_log :: pystr where
  "cmd_fail2ban_log = str ''journalctl -u fail2ban --since '' @ [39] @ str ''1 hour ago'' @ [39]
     @ str '' --no-pager -q 2>/dev/null | tail -10''"

definition cmd_ssh_fails :: pystr where
  "cmd_ssh_fails = str ''journalctl _SYSTEMD_UNIT=ssh.service --since '' @ [39] @ str ''1 hour ago'' @ [39]
     @ str '' --no-pager -q 2>/dev/null | grep -i '' @ [39] @ str ''invalid'' @ [92] @ str ''|failed'' @ [92]
     @ str ''|error'' @ [39] @ str '' | wc -l''"

definition cmd_system_errors :: pystr where
  "cmd_system_errors = str ''journalctl -p err --since '' @ [39] @ str ''1 hour ago'' @ [39]
     @ str '' --no-pager -q 2>/dev/null | tail -20''"

definition cmd_monitor_log :: pystr where
  "cmd_monitor_log = str ''tail -n 15 /root/.openclaw/logs/monitor.log 2>/dev/null''"

definition cmd_backup_log :: pystr where
  "cmd_backup_log = str ''tail -n 5 /root/.openclaw/logs/backup.log 2>/dev/null''"

text \<open>
  The snapshot is a Python dictionary, which keeps its keys in insertion order: an
  association list. \<open>s[k] = v\<close> is \<^const>\<open>AList.update\<close>, which replaces the value of a
  key that is present, in place, and appends a key that is not.
\<close>

type_synonym snapshot = "(pystr \<times> pystr) list"

definition collect :: "shell \<Rightarrow> trace \<Rightarrow> snapshot \<times> trace" where
  "collect sh tr0 =
    (let s = [];
         (docker_containers, tr) = run sh cmd_docker_ps tr0;
         s = AList.update (str ''docker_containers'') docker_containers s;
         (docker_stats, tr) = run sh cmd_docker_stats tr;
         s = AList.update (str ''docker_stats'')
               (or_else docker_stats (str ''(no containers running)'')) s;
         (openclaw_logs, tr) = run sh cmd_docker_logs tr;
         s = AList.update (str ''openclaw_logs'') (or_else openclaw_logs (str ''(no logs)'')) s;
         (mem, tr) = run sh cmd_mem tr;
         (swap, tr) = run sh cmd_swap tr;
         (disk, tr) = run sh cmd_disk tr;
         (load, tr) = run sh cmd_load tr;
         (uptime, tr) = run sh cmd_uptime tr;
         s = AList.update (str ''system_resources'')
               (join [10]
                 [str ''Memory: '' @ mem,
                  str ''Swap:   '' @ swap,
                  str ''Disk:   '' @ disk,
                  str ''Load:   '' @ load,
                  str ''Uptime: '' @ uptime]) s;
         (established, tr) = run sh cmd_established tr;
         s = AList.update (str ''established_connections'') (or_else established (str ''(none)'')) s;
         (tcp_total, tr) = run sh cmd_tcp_total tr;
         (tcp_estab, tr) = run sh cmd_tcp_estab tr;
         (tcp_timewait, tr) = run sh cmd_tcp_timewait tr;
         (tcp_synrecv, tr) = run sh cmd_tcp_synrecv tr;
         (top_ips, tr) = run sh cmd_top_ips tr;
         top_ips = or_else top_ips (str ''(none)'');
         (fail2ban, tr) = run sh cmd_fail2ban tr;
         fail2ban = or_else fail2ban (str ''(fail2ban not available)'');
         (fail2ban_log, tr) = run sh cmd_fail2ban_log tr;
         fail2ban_log = or_else fail2ban_log (str ''(no events)'');
         (ssh_fails, tr) = run sh cmd_ssh_fails tr;
         s = AList.update (str ''network_security'')
               (join [10]
                 [str ''TCP stats:      '' @ tcp_total,
                  str ''Established:    '' @ tcp_estab @ str '' connections'',
                  str ''TIME_WAIT:      '' @ tcp_timewait,
                  str ''SYN_RECV:       '' @ tcp_synrecv @ str ''  '' @ [8592] @ str '' >50 ''
                    @ [1084, 1086, 1078, 1077, 1090] @ str '' '' @ [1073, 1099, 1090, 1100]
                    @ str '' SYN flood'',
                  str ''Top source IPs: '' @ [10] @ top_ips,
                  str ''SSH failed auth (1h): '' @ ssh_fails,
                  str ''fail2ban status:'' @ [10] @ fail2ban,
                  str ''fail2ban events (1h):'' @ [10] @ fail2ban_log]) s;
         (system_errors, tr) = run sh cmd_system_errors tr;
         s = AList.update (str ''system_errors'') (or_else system_errors (str ''(none)'')) s;
         (monitor_log, tr) = run sh cmd_monitor_log tr;
         s = AList.update (str ''monitor_log'') (or_else monitor_log (str ''(empty)'')) s;
         (backup_log, tr) = run sh cmd_backup_log tr;
         s = AList.update (str ''backup_log'') (or_else backup_log (str ''(empty)'')) s
     in (s, tr))"

section \<open>build_prompt\<close>

text \<open>The fixed lines \<open>build_prompt\<close> starts from; only the second holds the timestamp.\<close>

definition preamble :: "pystr \<Rightarrow> pystr list" where
  "preamble now =
     [str ''You are monitoring server '' @ [39] @ str ''openclaw-tg-bot'' @ [39]
        @ str '' (OpenClaw AI agent + Telegram bot).'',
      str ''Report time: '' @ now @ str '' UTC'',
      [],
      str ''Write a terse server status report. Output plain Telegram HTML only.'',
      str ''Style: Teenage Engineering '' @ [8212]
        @ str '' minimal, technical, no fluff, no emoji, no box-drawing chars.'',
      [],
      str ''RULES:'',
      str ''- Section headers: <b>CAPS</b>'',
      str ''- Values: <code>value</code>'',
      str ''- Warnings/errors: <b>!!</b> prefix'',
      str ''- NO separator lines (no '' @ [9472, 9472, 9472] @ str '' or --- or ===)'',
      str ''- NO emoji at all'',
      str ''- Blank line between sections'',
      str ''- Lowercase labels, CAPS for status values: OK / WARN / CRIT'',
      str ''- Max 35 lines. Cut anything that is normal/expected.'',
      str ''- Language: Russian for descriptions, English for technical terms'',
      [],
      str ''EXACT FORMAT:'',
      [],
      str ''<b>OPENCLAW-TG-BOT</b>  {DD MON YYYY}  <code>{HH:MM} UTC</code>'',
      [],
      str ''<b>STATUS</b>  OK'',
      [],
      str ''<b>CONTAINERS</b>'',
      str ''openclaw-gateway  <code>up 22m</code>  cpu <code>0.07%</code>  ram <code>359mb</code>'',
      [],
      str ''<b>RESOURCES</b>'',
      str ''cpu <code>0.07%</code>  load <code>0.14 0.15 0.12</code>'',
      str ''mem <code>1.5/3.7G</code> <code>40%</code>  disk <code>13/38G</code> <code>35%</code>'',
      str ''uptime <code>3d 5h</code>'',
      [],
      str ''<b>NETWORK</b>'',
      str ''estab <code>5</code>  syn_recv <code>1</code>  time_wait <code>3</code>'',
      str ''ssh fails <code>201/h</code>'',
      str ''fail2ban <code>3</code> banned'',
      str ''active sessions: <code>79.152.30.156</code> ssh x2  <code>176.120.22.47</code> ssh x1'',
      [],
      str ''<b>EVENTS</b>'',
      str ''<code>16:09</code> openclaw-gateway restart (sigterm) '' @ [8212] @ str '' ok'',
      [],
      str ''<b>!! {'' @ [1082, 1086, 1085, 1082, 1088, 1077, 1090, 1085, 1072, 1103] @ str '' ''
        @ [1087, 1088, 1086, 1073, 1083, 1077, 1084, 1072] @ str '' '' @ [1080] @ str '' ''
        @ [1095, 1090, 1086] @ str '' '' @ [1076, 1077, 1083, 1072, 1090, 1100] @ str ''}</b>'',
      [],
      str ''OMIT any section where there is nothing notable.'',
      str ''OMIT the !! block entirely if STATUS is OK.'',
      str ''For NETWORK active sessions: identify type (ssh/api/etc) and group by IP.'',
      str ''For threats: exact numbers, no vague wording.'']"

text \<open>
  The loop \<^verbatim>\<open>for title, content in sections.items(): lines += [...]\<close>, from the lines
  collected so far.
\<close>

fun add_sections :: "snapshot \<Rightarrow> pystr list \<Rightarrow> pystr list" where
  "add_sections [] lines = lines"
| "add_sections ((title, content) # rest) lines =
     add_sections rest (lines @ [str ''=== '' @ title @ str '' ==='', content, []])"

definition build_prompt :: "snapshot \<Rightarrow> pystr \<Rightarrow> pystr" where
  "build_prompt sections now = join [10] (add_sections sections (preamble now))"

section \<open>main\<close>

text \<open>Loading the API key: the first \<open>try\<close> block of \<open>main\<close>, up to its \<open>except\<close>.\<close>

definition load_api_key :: "pystr + pystr option \<Rightarrow> pystr + pystr" where
  "load_api_key cfg =
     (case cfg of
        Inl e \<Rightarrow> Inl e
      | Inr field \<Rightarrow>
          (let api_key = (case field of None \<Rightarrow> [] | Some v \<Rightarrow> v)
           in if api_key = [] then Inl (str ''primaryApiKey not found in ~/.claude.json'')
              else Inr api_key))"

text \<open>The second \<open>try\<close> block of \<open>main\<close>, up to its \<open>except\<close>.\<close>

definition digest_body :: "world \<Rightarrow> pystr \<Rightarrow> pystr \<Rightarrow> trace \<Rightarrow> (pystr + unit) \<times> trace" where
  "digest_body w api_key now tr0 =
     (let (sections, tr) = collect (shell_of w) tr0;
          prompt = build_prompt sections now;
          tr = log (str ''data collected, calling '' @ MODEL) tr
      in case call_claude (claude w) api_key prompt tr of
           (Inl e, tr) \<Rightarrow> (Inl e, tr)
         | (Inr report, tr) \<Rightarrow>
             (let tr = log (str ''response received, sending to Telegram'') tr
              in case tg (telegram w)
                        ([128202] @ str '' <b>Hourly digest</b> '' @ [8212] @ str '' '' @ now
                           @ str '' UTC'' @ [10, 10] @ report) tr of
                   (Inl e, tr) \<Rightarrow> (Inl e, tr)
                 | (Inr u, tr) \<Rightarrow> (Inr (), log (str ''digest sent OK'') tr)))"

text \<open>
  How the process ends: \<open>main\<close> returns, \<open>sys.exit(n)\<close> is called, or an exception leaves
  \<open>main\<close> uncaught. The interpreter turns these into the exit status \<open>0\<close>, \<open>n\<close> and \<open>1\<close>.
\<close>

datatype outcome = Returned | SysExit nat | Uncaught pystr


text \<open>
  An \<open>except\<close> block of \<open>main\<close> after its \<open>log\<close> call: the notice is sent, then
  \<open>sys.exit(1)\<close>; an exception of \<open>tg\<close> raised here is caught by nothing.
\<close>

definition notify_and_exit :: "telegram_api \<Rightarrow> pystr \<Rightarrow> trace \<Rightarrow> outcome \<times> trace" where
  "notify_and_exit api notice tr =
     (case tg api notice tr of
        (Inl e, tr) \<Rightarrow> (Uncaught e, tr)
      | (Inr u, tr) \<Rightarrow> (SysExit 1, tr))"

definition main :: "world \<Rightarrow> outcome \<times> trace" where
  "main w =
     (let tr = log (str ''digest started'') []
      in case load_api_key (config_file w) of
           Inl e \<Rightarrow>
             (let tr = log (str ''ERROR loading API key: '' @ e) tr
              in notify_and_exit (telegram w) ([128308] @ str '' <b>digest error</b>: '' @ e) tr)
         | Inr api_key \<Rightarrow>
             (let now = clock w
              in case digest_body w api_key now tr of
                   (Inl e, tr) \<Rightarrow>
                     (let tr = log (str ''ERROR: '' @ e) tr
                      in notify_and_exit (telegram w)
                           ([128308] @ str '' <b>digest script error</b>: <code>'' @ e
                              @ str ''</code>'') tr)
                 | (Inr u, tr) \<Rightarrow> (Returned, tr)))"

section \<open>Reading a trace\<close>

text \<open>The chunks posted, the texts passed to \<open>tg\<close>, the commands run, the prompts sent
  and the lines logged, each in the order of the trace.\<close>

definition posted :: "trace \<Rightarrow> pystr list" where
  "posted tr = concat (map (\<lambda>ev. case ev of Post c \<Rightarrow> [c] | _ \<Rightarrow> []) tr)"

definition tg_calls :: "trace \<Rightarrow> pystr list" where
  "tg_calls tr = concat (map (\<lambda>ev. case ev of Tg t \<Rightarrow> [t] | _ \<Rightarrow> []) tr)"

definition probes :: "trace \<Rightarrow> pystr list" where
  "probes tr = concat (map (\<lambda>ev. case ev of Probe c \<Rightarrow> [c] | _ \<Rightarrow> []) tr)"

definition claude_calls :: "trace \<Rightarrow> pystr list" where
  "claude_calls tr = concat (map (\<lambda>ev. case ev of Claude p \<Rightarrow> [p] | _ \<Rightarrow> []) tr)"

definition logged :: "trace \<Rightarrow> pystr list" where
  "logged tr = concat (map (\<lambda>ev. case ev of Log m \<Rightarrow> [m] | _ \<Rightarrow> []) tr)"

section \<open>Example environments\<close>

text \<open>
  Concrete inputs on which the theorems below are evaluated. \<open>blank_shell\<close>: every command
  fails with status 1 and prints only white space. \<open>world_9000\<close>: the key loads, the
  summarizer returns a report of 9000 characters and Telegram accepts every request.
  \<open>world_no_key\<close>: the configuration has no \<open>primaryApiKey\<close>. \<open>world_claude_down\<close>: the
  summarizer call raises. \<open>world_delivery_fails\<close>: the summarizer returns a report of 4000
  characters, and Telegram accepts a full chunk of 4000 characters and raises on any other
  request.
\<close>

definition blank_shell :: shell where
  "blank_shell cmd = \<lparr>returncode = 1, stdout = str '' '', stderr = [10]\<rparr>"

definition world_9000 :: world where
  "world_9000 =
     \<lparr>shell_of = blank_shell,
      config_file = Inr (Some (str ''sk-key'')),
      clock = str ''2024-05-01 12:00'',
      claude = (\<lambda>api_key prompt. Inr (replicate 9000 120)),
      telegram = (\<lambda>h chunk. Json True (str ''{}''))\<rparr>"




section \<open>Facts about strings and chunking\<close>

lemma str_eq_iff [simp]: "str a = str b \<longleftrightarrow> a = b"
  unfolding str_def using inj_of_char [where ?'a = nat] by (simp add: inj_map_eq_map)

lemma str_Nil_iff [simp]: "str s = [] \<longleftrightarrow> s = []" "[] = str s \<longleftrightarrow> s = []"
  by (auto simp: str_def)

lemma length_str [simp]: "length (str s) = length s"
  by (simp add: str_def)

lemma ceil_step:
  fixes a k :: nat
  assumes "0 < k" "0 < a"
  shows "(a + (k - 1)) div k = Suc ((a - k + (k - 1)) div k)"
proof (cases "k \<le> a")
  case True
  then have "a + (k - 1) = (a - k + (k - 1)) + k" by simp
  then have "(a + (k - 1)) div k = (a - k + (k - 1)) div k + 1"
    using assms(1) by (metis div_add_self2 less_numeral_extra(3))
  then show ?thesis by simp
next
  case False
  with assms have "k * 1 \<le> a + (k - 1)" "a + (k - 1) < k * Suc 1" "a - k + (k - 1) < k"
    by simp_all
  then have "(a + (k - 1)) div k = 1" "(a - k + (k - 1)) div k = 0"
    by (simp_all add: div_nat_eqI)
  then show ?thesis by simp
qed

lemma length_py_range_from:
  "0 < k \<Longrightarrow> length (py_range s n k) = (n - s + (k - 1)) div k"
proof (induction s n k rule: py_range.induct)
  case (1 start stop step)
  show ?case
  proof (cases "start < stop")
    case True
    with 1 have "length (py_range start stop step) = Suc ((stop - start - step + (step - 1)) div step)"
      by (simp add: py_range.simps [of start])
    also have "\<dots> = (stop - start + (step - 1)) div step"
      using ceil_step [of step "stop - start"] True 1(2) by simp
    finally show ?thesis .
  next
    case False
    then show ?thesis
      using 1(2) by (simp add: py_range.simps [of start])
  qed
qed

lemma concat_slices_from:
  "0 < k \<Longrightarrow> concat (map (\<lambda>i. slice text i (i + k)) (py_range s (length text) k)) = drop s text"
proof (induction s "length text" k rule: py_range.induct)
  case (1 start step)
  show ?case
  proof (cases "start < length text")
    case True
    have "take step (drop start text) @ drop (start + step) text = drop start text"
      by (metis add.commute append_take_drop_id drop_drop)
    with 1 True show ?thesis
      by (simp add: py_range.simps [of start] slice_def)
  next
    case False
    then show ?thesis
      by (simp add: py_range.simps [of start])
  qed
qed

lemma concat_chunks: "concat (chunks text) = text"
  using concat_slices_from [of 4000 "text" 0] by (simp add: chunks_def)

lemma length_chunks: "length (chunks text) = (length text + 3999) div 4000"
  using length_py_range_from [of 4000 0 "length text"] by (simp add: chunks_def)

lemma length_chunk_le: "c \<in> set (chunks text) \<Longrightarrow> length c \<le> 4000"
  by (auto simp: chunks_def slice_def)

lemma py_range_shift: "0 < k \<Longrightarrow> py_range (s + d) (n + d) k = map (\<lambda>i. i + d) (py_range s n k)"
proof (induction s n k rule: py_range.induct)
  case (1 start stop step)
  show ?case
  proof (cases "start < stop")
    case True
    have "py_range (start + d) (stop + d) step
        = (start + d) # py_range (start + d + step) (stop + d) step"
      using True 1(2) by (subst py_range.simps) simp
    also have "start + d + step = start + step + d" by simp
    also have "py_range (start + step + d) (stop + d) step
        = map (\<lambda>i. i + d) (py_range (start + step) stop step)"
      using 1 True by simp
    finally show ?thesis
      using True 1(2) by (simp add: py_range.simps [of start])
  next
    case False
    then show ?thesis
      by (simp add: py_range.simps [of start] py_range.simps [of "start + d"])
  qed
qed

lemma chunks_Nil [simp]: "chunks [] = []"
  by (simp add: chunks_def py_range.simps)

lemma chunks_step:
  assumes "text \<noteq> []"
  shows "chunks text = take 4000 text # chunks (drop 4000 text)"
proof (cases "length text \<le> 4000")
  case True
  then have "py_range 4000 (length text) 4000 = []"
    by (simp add: py_range.simps)
  with assms True show ?thesis
    by (simp add: chunks_def py_range.simps [of 0] slice_def)
next
  case False
  then have "py_range (0 + 4000) (length text - 4000 + 4000) 4000
      = map (\<lambda>i. i + 4000) (py_range 0 (length text - 4000) 4000)"
    by (intro py_range_shift) simp
  with False have "py_range 4000 (length text) 4000
      = map (\<lambda>i. i + 4000) (py_range 0 (length text - 4000) 4000)"
    by simp
  with assms show ?thesis
    by (simp add: chunks_def py_range.simps [of 0] slice_def o_def add.commute)
qed

lemma map_length_chunks:
  "map length (chunks text) =
     replicate (length text div 4000) 4000 @
     (if length text mod 4000 = 0 then [] else [length text mod 4000])"
proof (induction "length text" arbitrary: "text" rule: less_induct)
  case less
  show ?case
  proof (cases "length text < 4000")
    case True
    then show ?thesis
      by (cases "text = []") (simp_all add: chunks_step)
  next
    case False
    then have ne: "text \<noteq> []" by auto
    have "length (drop 4000 text) < length text" using False by simp
    from less [OF this] False ne show ?thesis
      by (simp add: chunks_step [OF ne] le_div_geq le_mod_geq)
  qed
qed

section \<open>Facts about the delivery loop\<close>

lemma posted_simps [simp]:
  "posted [] = []" "posted (tr @ tr') = posted tr @ posted tr'"
  "posted (Post c # tr) = c # posted tr" "posted (Log m # tr) = posted tr"
  "posted (Tg t # tr) = posted tr" "posted (Probe p # tr) = posted tr"
  "posted (Claude q # tr) = posted tr"
  by (simp_all add: posted_def)

lemma tg_calls_simps [simp]:
  "tg_calls [] = []" "tg_calls (tr @ tr') = tg_calls tr @ tg_calls tr'"
  "tg_calls (Post c # tr) = tg_calls tr" "tg_calls (Log m # tr) = tg_calls tr"
  "tg_calls (Tg t # tr) = t # tg_calls tr" "tg_calls (Probe p # tr) = tg_calls tr"
  "tg_calls (Claude q # tr) = tg_calls tr"
  by (simp_all add: tg_calls_def)

lemma probes_simps [simp]:
  "probes [] = []" "probes (tr @ tr') = probes tr @ probes tr'"
  "probes (Post c # tr) = probes tr" "probes (Log m # tr) = probes tr"
  "probes (Tg t # tr) = probes tr" "probes (Probe p # tr) = p # probes tr"
  "probes (Claude q # tr) = probes tr"
  by (simp_all add: probes_def)

lemma claude_calls_simps [simp]:
  "claude_calls [] = []" "claude_calls (tr @ tr') = claude_calls tr @ claude_calls tr'"
  "claude_calls (Post c # tr) = claude_calls tr" "claude_calls (Log m # tr) = claude_calls tr"
  "claude_calls (Tg t # tr) = claude_calls tr" "claude_calls (Probe p # tr) = claude_calls tr"
  "claude_calls (Claude q # tr) = q # claude_calls tr"
  by (simp_all add: claude_calls_def)

lemma logged_simps [simp]:
  "logged [] = []" "logged (tr @ tr') = logged tr @ logged tr'"
  "logged (Post c # tr) = logged tr" "logged (Log m # tr) = m # logged tr"
  "logged (Tg t # tr) = logged tr" "logged (Probe p # tr) = logged tr"
  "logged (Claude q # tr) = logged tr"
  by (simp_all add: logged_def)

lemma tg_loop_extends:
  "\<exists>ext. snd (tg_loop api cs tr) = tr @ ext \<and> tg_calls ext = [] \<and> probes ext = []
     \<and> claude_calls ext = []"
proof (induction cs arbitrary: tr)
  case Nil
  show ?case by simp
next
  case (Cons c cs)
  show ?case
  proof (cases "api tr c")
    case (Raises e)
    then show ?thesis by simp
  next
    case (Json ok r)
    let ?tr' = "if \<not> ok then log (str ''TG error: '' @ r) (tr @ [Post c]) else tr @ [Post c]"
    from Cons [of ?tr'] obtain ext where
      "snd (tg_loop api cs ?tr') = ?tr' @ ext" "tg_calls ext = []" "probes ext = []" "claude_calls ext = []"
      by blast
    with Json show ?thesis
      by (cases ok) (simp_all add: log_def)
  qed
qed

lemma tg_loop_posted_prefix:
  "\<exists>k\<le>length cs. posted (snd (tg_loop api cs tr)) = posted tr @ take k cs"
proof (induction cs arbitrary: tr)
  case Nil
  show ?case by simp
next
  case (Cons c cs)
  show ?case
  proof (cases "api tr c")
    case (Raises e)
    then have "posted (snd (tg_loop api (c # cs) tr)) = posted tr @ take 1 (c # cs)" by simp
    then show ?thesis by (intro exI [of _ 1]) simp
  next
    case (Json ok r)
    let ?tr' = "if \<not> ok then log (str ''TG error: '' @ r) (tr @ [Post c]) else tr @ [Post c]"
    from Cons [of ?tr'] obtain k where
      k: "k \<le> length cs" "posted (snd (tg_loop api cs ?tr')) = posted ?tr' @ take k cs"
      by blast
    have "posted ?tr' = posted tr @ [c]" by (simp add: log_def)
    with k Json have "posted (snd (tg_loop api (c # cs) tr)) = posted tr @ take (Suc k) (c # cs)"
      by simp
    with k(1) show ?thesis by (intro exI [of _ "Suc k"]) simp
  qed
qed

lemma tg_loop_returns_posted:
  "fst (tg_loop api cs tr) = Inr () \<Longrightarrow> posted (snd (tg_loop api cs tr)) = posted tr @ cs"
proof (induction cs arbitrary: tr)
  case Nil
  show ?case by simp
next
  case (Cons c cs)
  show ?case
  proof (cases "api tr c")
    case (Raises e)
    with Cons.prems show ?thesis by simp
  next
    case (Json ok r)
    let ?tr' = "if \<not> ok then log (str ''TG error: '' @ r) (tr @ [Post c]) else tr @ [Post c]"
    have "posted ?tr' = posted tr @ [c]" by (simp add: log_def)
    moreover from Cons.prems Json have "fst (tg_loop api cs ?tr') = Inr ()" by simp
    ultimately show ?thesis using Cons.IH [of ?tr'] Json by simp
  qed
qed

lemma tg_loop_no_raise:
  "\<forall>h c e. api h c \<noteq> Raises e \<Longrightarrow> fst (tg_loop api cs tr) = Inr ()"
proof (induction cs arbitrary: tr)
  case Nil
  show ?case by simp
next
  case (Cons c cs)
  then show ?case by (cases "api tr c") simp_all
qed


lemma split_at:
  assumes "xs @ ys = h @ e # rest" "length h < length xs"
  shows "take (length h) xs = h" "xs ! length h = e" "drop (Suc (length h)) xs @ ys = rest"
proof -
  have "take (length h) (xs @ ys) = h" "(xs @ ys) ! length h = e"
    "drop (Suc (length h)) (xs @ ys) = rest"
    unfolding assms(1) by simp_all
  moreover from assms(2) have "take (length h) (xs @ ys) = take (length h) xs"
    "(xs @ ys) ! length h = xs ! length h"
    "drop (Suc (length h)) (xs @ ys) = drop (Suc (length h)) xs @ ys"
    by (simp_all add: nth_append)
  ultimately show "take (length h) xs = h" "xs ! length h = e"
    "drop (Suc (length h)) xs @ ys = rest"
    by (simp_all only:)
qed

lemma tg_loop_logs_not_ok:
  "snd (tg_loop api cs tr) = h @ Post c # rest \<Longrightarrow> length tr \<le> length h \<Longrightarrow>
   api h c = Json False r \<Longrightarrow> \<exists>rest'. rest = Log (str ''TG error: '' @ r) # rest'"
proof (induction cs arbitrary: tr)
  case Nil
  then show ?case by auto
next
  case (Cons d cs)
  show ?case
  proof (cases "api tr d")
    case (Raises e)
    have "snd (tg_loop api (d # cs) tr) = (tr @ [Post d]) @ []" using Raises by simp
    then have eq: "(tr @ [Post d]) @ [] = h @ Post c # rest"
      using Cons.prems(1) by (simp only:)
    have "length ((tr @ [Post d]) @ []) = length (h @ Post c # rest)"
      by (rule arg_cong [OF eq])
    with Cons.prems(2) have len: "length h = length tr" by simp
    then have lt: "length h < length (tr @ [Post d])" by simp
    have "take (length tr) (tr @ [Post d]) = h" "(tr @ [Post d]) ! length tr = Post c"
      using split_at(1,2) [OF eq lt] unfolding len by blast+
    then have "h = tr" "c = d" by auto
    with Raises Cons.prems(3) show ?thesis by simp
  next
    case (Json ok r0)
    let ?tr' = "if \<not> ok then log (str ''TG error: '' @ r0) (tr @ [Post d]) else tr @ [Post d]"
    have "snd (tg_loop api (d # cs) tr) = snd (tg_loop api cs ?tr')" using Json by simp
    then have eq: "snd (tg_loop api cs ?tr') = h @ Post c # rest"
      using Cons.prems(1) by (simp only:)
    obtain ext where ext: "snd (tg_loop api cs ?tr') = ?tr' @ ext"
      using tg_loop_extends [of api cs ?tr'] by blast
    show ?thesis
    proof (cases "length ?tr' \<le> length h")
      case True
      from Cons.IH [OF eq True Cons.prems(3)] show ?thesis .
    next
      case False
      then have lt: "length h < length ?tr'" by simp
      from eq ext have eq': "?tr' @ ext = h @ Post c # rest" by (simp only:)
      note s = split_at [OF eq' lt]
      show ?thesis
      proof (cases "length h = length tr")
        case True
        have "take (length tr) ?tr' = h" "?tr' ! length tr = Post c"
          "drop (Suc (length tr)) ?tr' @ ext = rest"
          using s unfolding True by blast+
        then have hc: "tr = h" "d = c" and r: "rest = (if \<not> ok then [Log (str ''TG error: '' @ r0)] else []) @ ext"
          by (auto simp: log_def split: if_splits)
        from Json Cons.prems(3) have "\<not> ok" "r0 = r" unfolding hc by simp_all
        with r show ?thesis by simp
      next
        case False
        with lt Cons.prems(2) have len: "\<not> ok" "length h = Suc (length tr)"
          by (simp_all add: log_def split: if_splits)
        have "?tr' ! Suc (length tr) = Post c" using s(2) unfolding len(2) .
        with len(1) show ?thesis by (simp add: log_def nth_append)
      qed
    qed
  qed
qed

section \<open>Facts about tg\<close>

lemma ceiling_div_4000: "\<lceil>real n / 4000\<rceil> = int ((n + 3999) div 4000)"
proof -
  have "\<lceil>real n / 4000\<rceil> = \<lceil>of_int (int n) / of_int 4000 :: real\<rceil>" by simp
  also have "\<dots> = - (- int n div 4000)" by (rule ceiling_divide_eq_div)
  also have "\<dots> = int ((n + 3999) div 4000)" by (simp add: zdiv_int)
  finally show ?thesis .
qed

lemma chunks_replicate_9000:
  "chunks (replicate 9000 x) = [replicate 4000 x, replicate 4000 x, replicate 1000 x]"
  by (simp add: chunks_step)

lemma tg_extends:
  "\<exists>ext. snd (tg api t tr) = tr @ Tg t # ext \<and> tg_calls ext = [] \<and> probes ext = []
     \<and> claude_calls ext = []"
  using tg_loop_extends [of api "chunks t" "tr @ [Tg t]"] by (auto simp: tg_def)

lemma tg_posted_prefix:
  "\<exists>k\<le>length (chunks t). posted (snd (tg api t tr)) = posted tr @ take k (chunks t)"
  using tg_loop_posted_prefix [of "chunks t" api "tr @ [Tg t]"] by (simp add: tg_def)

lemma tg_returns_posted:
  "fst (tg api t tr) = Inr () \<Longrightarrow> posted (snd (tg api t tr)) = posted tr @ chunks t"
  using tg_loop_returns_posted [of api "chunks t" "tr @ [Tg t]"] by (simp add: tg_def)

lemma tg_no_raise:
  "\<forall>h c e. api h c \<noteq> Raises e \<Longrightarrow> fst (tg api t tr) = Inr ()"
  by (simp add: tg_def tg_loop_no_raise)


lemma tg_logs_not_ok:
  assumes "snd (tg api t tr) = h @ Post c # rest" "length tr \<le> length h" "api h c = Json False r"
  shows "\<exists>rest'. rest = Log (str ''TG error: '' @ r) # rest'"
proof (cases "length h = length tr")
  case True
  obtain ext where ext: "snd (tg api t tr) = tr @ Tg t # ext"
    using tg_extends [of api t tr] by blast
  with assms(1) have eq: "tr @ Tg t # ext = h @ Post c # rest" by (simp only:)
  have a: "(h @ Post c # rest) ! length h = Post c" by simp
  have b: "(tr @ Tg t # ext) ! length h = Tg t" unfolding True by simp
  have "(tr @ Tg t # ext) ! length h = (h @ Post c # rest) ! length h"
    by (rule arg_cong [OF eq])
  then have "Tg t = Post c" unfolding a b .
  then show ?thesis by simp
next
  case False
  with assms(2) have len: "length (tr @ [Tg t]) \<le> length h" by simp
  from assms(1) have eq: "snd (tg_loop api (chunks t) (tr @ [Tg t])) = h @ Post c # rest"
    by (simp add: tg_def)
  show ?thesis by (rule tg_loop_logs_not_ok [OF eq len assms(3)])
qed

section \<open>Facts about collect and build_prompt\<close>

lemma collect_eq:
  "collect sh tr =
    ([(str ''docker_containers'', run_output sh cmd_docker_ps),
      (str ''docker_stats'', or_else (run_output sh cmd_docker_stats) (str ''(no containers running)'')),
      (str ''openclaw_logs'', or_else (run_output sh cmd_docker_logs) (str ''(no logs)'')),
      (str ''system_resources'',
         join [10]
           [str ''Memory: '' @ run_output sh cmd_mem,
            str ''Swap:   '' @ run_output sh cmd_swap,
            str ''Disk:   '' @ run_output sh cmd_disk,
            str ''Load:   '' @ run_output sh cmd_load,
            str ''Uptime: '' @ run_output sh cmd_uptime]),
      (str ''established_connections'', or_else (run_output sh cmd_established) (str ''(none)'')),
      (str ''network_security'',
         join [10]
           [str ''TCP stats:      '' @ run_output sh cmd_tcp_total,
            str ''Established:    '' @ run_output sh cmd_tcp_estab @ str '' connections'',
            str ''TIME_WAIT:      '' @ run_output sh cmd_tcp_timewait,
            str ''SYN_RECV:       '' @ run_output sh cmd_tcp_synrecv @ str ''  '' @ [8592] @ str '' >50 ''
              @ [1084, 1086, 1078, 1077, 1090] @ str '' '' @ [1073, 1099, 1090, 1100]
              @ str '' SYN flood'',
            str ''Top source IPs: '' @ [10] @ or_else (run_output sh cmd_top_ips) (str ''(none)''),
            str ''SSH failed auth (1h): '' @ run_output sh cmd_ssh_fails,
            str ''fail2ban status:'' @ [10]
              @ or_else (run_output sh cmd_fail2ban) (str ''(fail2ban not available)''),
            str ''fail2ban events (1h):'' @ [10]
              @ or_else (run_output sh cmd_fail2ban_log) (str ''(no events)'')]),
      (str ''system_errors'', or_else (run_output sh cmd_system_errors) (str ''(none)'')),
      (str ''monitor_log'', or_else (run_output sh cmd_monitor_log) (str ''(empty)'')),
      (str ''backup_log'', or_else (run_output sh cmd_backup_log) (str ''(empty)''))],
     tr @ map Probe
       [cmd_docker_ps, cmd_docker_stats, cmd_docker_logs, cmd_mem, cmd_swap, cmd_disk, cmd_load,
        cmd_uptime, cmd_established, cmd_tcp_total, cmd_tcp_estab, cmd_tcp_timewait,
        cmd_tcp_synrecv, cmd_top_ips, cmd_fail2ban, cmd_fail2ban_log, cmd_ssh_fails,
        cmd_system_errors, cmd_monitor_log, cmd_backup_log])"
  by (simp add: collect_def run_def del: join.simps)

lemma collect_keys:
  "map fst (fst (collect sh tr)) =
     [str ''docker_containers'', str ''docker_stats'', str ''openclaw_logs'',
      str ''system_resources'', str ''established_connections'', str ''network_security'',
      str ''system_errors'', str ''monitor_log'', str ''backup_log'']"
  by (simp only: collect_eq fst_conv list.map)

lemma collect_trace:
  "snd (collect sh tr) = tr @ map Probe
       [cmd_docker_ps, cmd_docker_stats, cmd_docker_logs, cmd_mem, cmd_swap, cmd_disk, cmd_load,
        cmd_uptime, cmd_established, cmd_tcp_total, cmd_tcp_estab, cmd_tcp_timewait,
        cmd_tcp_synrecv, cmd_top_ips, cmd_fail2ban, cmd_fail2ban_log, cmd_ssh_fails,
        cmd_system_errors, cmd_monitor_log, cmd_backup_log]"
  by (simp only: collect_eq snd_conv)

lemma collect_trace_obs:
  "posted (snd (collect sh tr)) = posted tr"
  "tg_calls (snd (collect sh tr)) = tg_calls tr"
  "claude_calls (snd (collect sh tr)) = claude_calls tr"
  "logged (snd (collect sh tr)) = logged tr"
  by (simp_all add: collect_trace)

lemma add_sections_eq:
  "add_sections secs ls =
     ls @ concat (map (\<lambda>(t, c). [str ''=== '' @ t @ str '' ==='', c, []]) secs)"
  by (induction secs ls rule: add_sections.induct) simp_all

lemma join_Cons: "join sep (l # ms) = l @ concat (map (\<lambda>m. sep @ m) ms)"
  by (induction ms arbitrary: l) simp_all

lemma join_append:
  "ls \<noteq> [] \<Longrightarrow> join sep (ls @ ms) = join sep ls @ concat (map (\<lambda>m. sep @ m) ms)"
  by (cases ls) (simp_all add: join_Cons del: join.simps)

lemma preamble_not_Nil: "preamble now \<noteq> []"
  by (simp add: preamble_def)

lemma concat_nl_blocks:
  "concat (map (\<lambda>m. [10] @ m)
      (concat (map (\<lambda>(t, c). [str ''=== '' @ t @ str '' ==='', c, []]) secs)))
    = concat (map (\<lambda>(t, c). [10] @ str ''=== '' @ t @ str '' ==='' @ [10] @ c @ [10]) secs)"
  by (induction secs) auto

lemma build_prompt_eq:
  "build_prompt secs now =
     build_prompt [] now @
     concat (map (\<lambda>(t, c). [10] @ str ''=== '' @ t @ str '' ==='' @ [10] @ c @ [10]) secs)"
  using concat_nl_blocks [of secs]
  by (simp add: build_prompt_def add_sections_eq join_append preamble_not_Nil del: join.simps)

lemma join_blank_sections:
  "join [10] ([] # add_sections ys []) =
     concat (map (\<lambda>(t, c). [10] @ str ''=== '' @ t @ str '' ==='' @ [10] @ c @ [10]) ys)"
  using concat_nl_blocks [of ys]
  by (simp add: join_Cons add_sections_eq del: join.simps)

lemma build_prompt_split:
  "build_prompt (xs @ (t, c) # ys) now =
     (build_prompt xs now @ [10] @ str ''=== '' @ t @ str '' ==='' @ [10]) @ c @
     ([10] @ join [10] ([] # add_sections ys []))"
  unfolding join_blank_sections
  by (simp add: build_prompt_eq [of "xs @ (t, c) # ys"] build_prompt_eq [of xs])

lemma nth_section_lines:
  "i < length secs \<Longrightarrow>
     concat (map (\<lambda>(t, c). [d t, c, []]) secs) ! (3 * i) = d (fst (secs ! i))"
proof (induction secs arbitrary: i)
  case Nil
  then show ?case by simp
next
  case (Cons s secs)
  show ?case
  proof (cases i)
    case 0
    then show ?thesis by (simp add: case_prod_beta)
  next
    case (Suc j)
    with Cons.prems have "j < length secs" by simp
    from Cons.IH [OF this] Suc show ?thesis by (simp add: case_prod_beta)
  qed
qed

lemma delimiter_lines:
  "map (\<lambda>i. add_sections secs ls ! (length ls + 3 * i)) [0..<length secs]
     = map (\<lambda>s. str ''=== '' @ fst s @ str '' ==='') secs"
  by (rule nth_equalityI) (simp_all add: add_sections_eq nth_section_lines)

lemma collect_length: "length (fst (collect sh tr)) = 9"
  using arg_cong [OF collect_keys [of sh tr], of length] by simp

lemma collect_delimiters:
  "map (\<lambda>i. add_sections (fst (collect sh tr)) ls ! (length ls + 3 * i)) [0..<9]
     = map (\<lambda>t. str ''=== '' @ t @ str '' ==='')
        [str ''docker_containers'', str ''docker_stats'', str ''openclaw_logs'',
         str ''system_resources'', str ''established_connections'', str ''network_security'',
         str ''system_errors'', str ''monitor_log'', str ''backup_log'']"
proof -
  have "map (\<lambda>s. str ''=== '' @ fst s @ str '' ==='') (fst (collect sh tr))
      = map (\<lambda>t. str ''=== '' @ t @ str '' ==='') (map fst (fst (collect sh tr)))"
    by simp
  then show ?thesis
    using delimiter_lines [of "fst (collect sh tr)" ls]
    by (simp only: collect_length collect_keys)
qed

section \<open>Facts about main\<close>

lemma strip_empty_iff: "strip s = [] \<longleftrightarrow> (\<forall>c\<in>set s. isspace c)"
proof
  assume "strip s = []"
  then have all: "\<forall>c\<in>set (dropWhile isspace s). isspace c"
    by (simp add: strip_def dropWhile_eq_Nil_conv)
  have "dropWhile isspace s = []"
  proof (rule ccontr)
    assume ne: "dropWhile isspace s \<noteq> []"
    then have "\<not> isspace (hd (dropWhile isspace s))" by (rule hd_dropWhile)
    moreover from ne have "hd (dropWhile isspace s) \<in> set (dropWhile isspace s)" by simp
    ultimately show False using all by blast
  qed
  then show "\<forall>c\<in>set s. isspace c" by (simp add: dropWhile_eq_Nil_conv)
next
  assume "\<forall>c\<in>set s. isspace c"
  then have d: "dropWhile isspace s = []" by (simp add: dropWhile_eq_Nil_conv)
  show "strip s = []" unfolding strip_def d by simp
qed

lemma run_output_empty_iff:
  "run_output sh cmd = [] \<longleftrightarrow> (\<forall>c\<in>set (stdout (sh cmd) @ stderr (sh cmd)). isspace c)"
  by (simp add: run_output_def Let_def strip_empty_iff del: set_append)

lemma run_output_blank_shell: "run_output blank_shell cmd = []"
  by (simp add: run_output_empty_iff blank_shell_def isspace_def str_def)



lemma notify_not_Returned: "fst (notify_and_exit api n tr) \<noteq> Returned"
  by (simp add: notify_and_exit_def split: prod.splits sum.splits)

lemma digest_body_eq:
  "digest_body w k now tr =
     (case claude w k (build_prompt (fst (collect (shell_of w) tr)) now) of
        Inl e \<Rightarrow>
          (Inl e, snd (collect (shell_of w) tr) @
             [Log (str ''data collected, calling '' @ MODEL),
              Claude (build_prompt (fst (collect (shell_of w) tr)) now)])
      | Inr report \<Rightarrow>
          (case tg (telegram w)
                  ([128202] @ str '' <b>Hourly digest</b> '' @ [8212] @ str '' '' @ now
                     @ str '' UTC'' @ [10, 10] @ report)
                  (snd (collect (shell_of w) tr) @
                     [Log (str ''data collected, calling '' @ MODEL),
                      Claude (build_prompt (fst (collect (shell_of w) tr)) now),
                      Log (str ''response received, sending to Telegram'')]) of
             (Inl e, tr2) \<Rightarrow> (Inl e, tr2)
           | (Inr u, tr2) \<Rightarrow> (Inr (), tr2 @ [Log (str ''digest sent OK'')])))"
  by (simp add: digest_body_def call_claude_def log_def case_prod_beta Let_def
      split: sum.splits)

lemma main_load_fails:
  "load_api_key (config_file w) = Inl e \<Longrightarrow>
     main w = notify_and_exit (telegram w) ([128308] @ str '' <b>digest error</b>: '' @ e)
       [Log (str ''digest started''), Log (str ''ERROR loading API key: '' @ e)]"
  by (simp add: main_def log_def)

lemma main_load_ok:
  "load_api_key (config_file w) = Inr k \<Longrightarrow>
     main w =
       (case digest_body w k (clock w) [Log (str ''digest started'')] of
          (Inl e, tr) \<Rightarrow>
            notify_and_exit (telegram w)
              ([128308] @ str '' <b>digest script error</b>: <code>'' @ e @ str ''</code>'')
              (tr @ [Log (str ''ERROR: '' @ e)])
        | (Inr u, tr) \<Rightarrow> (Returned, tr))"
  by (simp add: main_def log_def Let_def split: prod.splits sum.splits)


lemma digest_body_cases:
  fixes w k now tr
  defines "prompt \<equiv> build_prompt (fst (collect (shell_of w) tr)) now"
  defines "tr1 \<equiv> snd (collect (shell_of w) tr) @
             [Log (str ''data collected, calling '' @ MODEL), Claude prompt]"
  obtains (claude_raises) e where
      "claude w k prompt = Inl e" "digest_body w k now tr = (Inl e, tr1)"
    | (tg_raises) report e tr2 where
      "claude w k prompt = Inr report"
      "tg (telegram w)
         ([128202] @ str '' <b>Hourly digest</b> '' @ [8212] @ str '' '' @ now
            @ str '' UTC'' @ [10, 10] @ report)
         (tr1 @ [Log (str ''response received, sending to Telegram'')]) = (Inl e, tr2)"
      "digest_body w k now tr = (Inl e, tr2)"
    | (delivered) report tr2 where
      "claude w k prompt = Inr report"
      "tg (telegram w)
         ([128202] @ str '' <b>Hourly digest</b> '' @ [8212] @ str '' '' @ now
            @ str '' UTC'' @ [10, 10] @ report)
         (tr1 @ [Log (str ''response received, sending to Telegram'')]) = (Inr (), tr2)"
      "digest_body w k now tr = (Inr (), tr2 @ [Log (str ''digest sent OK'')])"
proof (cases "claude w k prompt")
  case (Inl e)
  then have "digest_body w k now tr = (Inl e, tr1)"
    unfolding prompt_def tr1_def by (simp add: digest_body_eq)
  with Inl show ?thesis by (rule claude_raises)
next
  case (Inr report)
  let ?msg = "[128202] @ str '' <b>Hourly digest</b> '' @ [8212] @ str '' '' @ now
            @ str '' UTC'' @ [10, 10] @ report"
  let ?tr = "tr1 @ [Log (str ''response received, sending to Telegram'')]"
  obtain r tr2 where tg: "tg (telegram w) ?msg ?tr = (r, tr2)" by (cases "tg (telegram w) ?msg ?tr")
  show ?thesis
  proof (cases r)
    case (Inl e)
    with tg Inr have "digest_body w k now tr = (Inl e, tr2)"
      unfolding prompt_def tr1_def by (simp add: digest_body_eq)
    with Inr tg Inl show ?thesis by (auto intro: tg_raises)
  next
    case r: (Inr u)
    with tg Inr have "digest_body w k now tr = (Inr (), tr2 @ [Log (str ''digest sent OK'')])"
      unfolding prompt_def tr1_def by (simp add: digest_body_eq)
    with Inr tg r show ?thesis by (auto intro: delivered)
  qed
qed

lemma digest_message_not_report:
  "[128202] @ str '' <b>Hourly digest</b> '' @ [8212] @ str '' '' @ now @ str '' UTC'' @ [10, 10]
     @ report \<noteq> report"
proof
  assume "[128202] @ str '' <b>Hourly digest</b> '' @ [8212] @ str '' '' @ now @ str '' UTC''
     @ [10, 10] @ report = report"
  then have "length ([128202] @ str '' <b>Hourly digest</b> '' @ [8212] @ str '' '' @ now
     @ str '' UTC'' @ [10, 10] @ report) = length report"
    by (rule arg_cong)
  then show False by simp
qed

lemma main_Returned:
  assumes "fst (main w) = Returned"
  obtains key report tr2 where
    "load_api_key (config_file w) = Inr key"
    "claude w key
       (build_prompt (fst (collect (shell_of w) [Log (str ''digest started'')])) (clock w))
       = Inr report"
    "tg (telegram w)
       ([128202] @ str '' <b>Hourly digest</b> '' @ [8212] @ str '' '' @ clock w
          @ str '' UTC'' @ [10, 10] @ report)
       (snd (collect (shell_of w) [Log (str ''digest started'')]) @
          [Log (str ''data collected, calling '' @ MODEL),
           Claude (build_prompt (fst (collect (shell_of w) [Log (str ''digest started'')]))
             (clock w)),
           Log (str ''response received, sending to Telegram'')]) = (Inr (), tr2)"
    "main w = (Returned, tr2 @ [Log (str ''digest sent OK'')])"
proof (cases "load_api_key (config_file w)")
  case (Inl e)
  from main_load_fails [OF this] assms notify_not_Returned show ?thesis by metis
next
  case (Inr key)
  note m = main_load_ok [OF Inr]
  show ?thesis
  proof (cases rule: digest_body_cases [where w = w and k = key and now = "clock w"
        and tr = "[Log (str ''digest started'')]"])
    case (claude_raises e)
    with m assms notify_not_Returned show ?thesis by simp
  next
    case (tg_raises report e tr2)
    with m assms notify_not_Returned show ?thesis by simp
  next
    case (delivered report tr2)
    with m have "main w = (Returned, tr2 @ [Log (str ''digest sent OK'')])" by simp
    with Inr delivered(1,2) show ?thesis by (auto intro: that)
  qed
qed

lemma main_success_trace:
  assumes "fst (main w) = Returned"
  obtains key report where
    "load_api_key (config_file w) = Inr key"
    "claude w key
       (build_prompt (fst (collect (shell_of w) [Log (str ''digest started'')])) (clock w))
       = Inr report"
    "tg_calls (snd (main w)) =
       [[128202] @ str '' <b>Hourly digest</b> '' @ [8212] @ str '' '' @ clock w
          @ str '' UTC'' @ [10, 10] @ report]"
    "posted (snd (main w)) =
       chunks ([128202] @ str '' <b>Hourly digest</b> '' @ [8212] @ str '' '' @ clock w
          @ str '' UTC'' @ [10, 10] @ report)"
proof -
  from assms obtain key report tr2 where
    k: "load_api_key (config_file w) = Inr key"
    and c: "claude w key
       (build_prompt (fst (collect (shell_of w) [Log (str ''digest started'')])) (clock w))
       = Inr report"
    and t: "tg (telegram w)
       ([128202] @ str '' <b>Hourly digest</b> '' @ [8212] @ str '' '' @ clock w
          @ str '' UTC'' @ [10, 10] @ report)
       (snd (collect (shell_of w) [Log (str ''digest started'')]) @
          [Log (str ''data collected, calling '' @ MODEL),
           Claude (build_prompt (fst (collect (shell_of w) [Log (str ''digest started'')]))
             (clock w)),
           Log (str ''response received, sending to Telegram'')]) = (Inr (), tr2)"
    and m: "main w = (Returned, tr2 @ [Log (str ''digest sent OK'')])"
    by (rule main_Returned)
  let ?msg = "[128202] @ str '' <b>Hourly digest</b> '' @ [8212] @ str '' '' @ clock w
          @ str '' UTC'' @ [10, 10] @ report"
  let ?tr = "snd (collect (shell_of w) [Log (str ''digest started'')]) @
          [Log (str ''data collected, calling '' @ MODEL),
           Claude (build_prompt (fst (collect (shell_of w) [Log (str ''digest started'')]))
             (clock w)),
           Log (str ''response received, sending to Telegram'')]"
  from t have f: "fst (tg (telegram w) ?msg ?tr) = Inr ()" and s: "snd (tg (telegram w) ?msg ?tr) = tr2"
    by simp_all
  from tg_returns_posted [OF f] have "posted tr2 = chunks ?msg"
    unfolding s by (simp add: collect_trace_obs)
  moreover obtain ext where "tr2 = ?tr @ Tg ?msg # ext" "tg_calls ext = []"
    using tg_extends [of "telegram w" ?msg ?tr] unfolding s by blast
  then have "tg_calls tr2 = [?msg]" by (simp add: collect_trace_obs)
  ultimately show ?thesis using k c m by (intro that [of key report]) simp_all
qed

lemma main_returns:
  assumes "load_api_key (config_file w) = Inr key"
    and "claude w key
       (build_prompt (fst (collect (shell_of w) [Log (str ''digest started'')])) (clock w))
       = Inr report"
    and "\<forall>h c e. telegram w h c \<noteq> Raises e"
  shows "fst (main w) = Returned"
proof (cases rule: digest_body_cases [where w = w and k = key and now = "clock w"
        and tr = "[Log (str ''digest started'')]"])
  case (claude_raises e)
  with assms(2) show ?thesis by simp
next
  case (tg_raises report' e tr2)
  then have "fst (tg (telegram w)
       ([128202] @ str '' <b>Hourly digest</b> '' @ [8212] @ str '' '' @ clock w
          @ str '' UTC'' @ [10, 10] @ report')
       (snd (collect (shell_of w) [Log (str ''digest started'')]) @
          [Log (str ''data collected, calling '' @ MODEL),
           Claude (build_prompt (fst (collect (shell_of w) [Log (str ''digest started'')]))
             (clock w))] @
          [Log (str ''response received, sending to Telegram'')])) = Inl e"
    by simp
  with tg_no_raise [OF assms(3)] show ?thesis by simp
next
  case (delivered report' tr2)
  with main_load_ok [OF assms(1)] show ?thesis by simp
qed

lemma world_9000_simps:
  "load_api_key (config_file world_9000) = Inr (str ''sk-key'')"
  "claude world_9000 k p = Inr (replicate 9000 120)"
  "telegram world_9000 h c = Json True (str ''{}'')"
  "clock world_9000 = str ''2024-05-01 12:00''"
  "shell_of world_9000 = blank_shell"
  by (simp_all add: world_9000_def load_api_key_def)

lemma main_world_9000: "fst (main world_9000) = Returned"
  by (rule main_returns [of world_9000 "str ''sk-key''" "replicate 9000 120"])
    (simp_all add: world_9000_simps)

lemma replicate_2: "replicate 2 x = [x, x]"
  by (simp add: numeral_2_eq_2)

lemma sizes_9000: "length (msg :: 'a list) = 9000 \<Longrightarrow> map length (chunks msg) = [4000, 4000, 1000]"
  by (simp add: map_length_chunks replicate_2)

lemma sizes_9047: "length (msg :: 'a list) = 9047 \<Longrightarrow> map length (chunks msg) = [4000, 4000, 1047]"
  by (simp add: map_length_chunks replicate_2)

lemma posted_world_9000:
  "map length (posted (snd (main world_9000))) = [4000, 4000, 1047]"
proof -
  obtain key report where
    "claude world_9000 key
       (build_prompt (fst (collect (shell_of world_9000) [Log (str ''digest started'')]))
          (clock world_9000)) = Inr report"
    and p: "posted (snd (main world_9000)) =
       chunks ([128202] @ str '' <b>Hourly digest</b> '' @ [8212] @ str '' '' @ clock world_9000
          @ str '' UTC'' @ [10, 10] @ report)"
    using main_world_9000 by (rule main_success_trace)
  then have "report = replicate 9000 120" by (simp add: world_9000_simps)
  then have "length ([128202] @ str '' <b>Hourly digest</b> '' @ [8212] @ str '' ''
      @ clock world_9000 @ str '' UTC'' @ [10, 10] @ report) = 9047"
    by (simp add: world_9000_simps)
  then show ?thesis unfolding p by (rule sizes_9047)
qed





section \<open>Facts about the example environments\<close>










section \<open>The claims\<close>

subsection \<open>C1\<close>


subsection \<open>C2\<close>

text \<open>
  C2 (as amended). The text \<open>run\<close> returns is empty exactly when the combined output holds
  only white space, whatever the exit status. For the six sections \<open>docker_stats\<close>,
  \<open>openclaw_logs\<close>, \<open>established_connections\<close>, \<open>system_errors\<close>, \<open>monitor_log\<close> and
  \<open>backup_log\<close>, an empty text is replaced by the section's fallback string. \<open>docker_containers\<close>
  has no fallback: it stores the text as it is. \<open>system_resources\<close> and \<open>network_security\<close>
  are joined from labelled texts of several commands, of which only the top source IPs, the
  fail2ban status and the fail2ban events have a fallback.
\<close>

theorem collect_fallbacks:
  "(run_output sh cmd = [] \<longleftrightarrow> (\<forall>c\<in>set (stdout (sh cmd) @ stderr (sh cmd)). isspace c))
   \<and> (run_output sh cmd_docker_stats = [] \<longrightarrow>
        map_of (fst (collect sh tr)) (str ''docker_stats'') = Some (str ''(no containers running)''))
   \<and> (run_output sh cmd_docker_logs = [] \<longrightarrow>
        map_of (fst (collect sh tr)) (str ''openclaw_logs'') = Some (str ''(no logs)''))
   \<and> (run_output sh cmd_established = [] \<longrightarrow>
        map_of (fst (collect sh tr)) (str ''established_connections'') = Some (str ''(none)''))
   \<and> (run_output sh cmd_system_errors = [] \<longrightarrow>
        map_of (fst (collect sh tr)) (str ''system_errors'') = Some (str ''(none)''))
   \<and> (run_output sh cmd_monitor_log = [] \<longrightarrow>
        map_of (fst (collect sh tr)) (str ''monitor_log'') = Some (str ''(empty)''))
   \<and> (run_output sh cmd_backup_log = [] \<longrightarrow>
        map_of (fst (collect sh tr)) (str ''backup_log'') = Some (str ''(empty)''))
   \<and> map_of (fst (collect sh tr)) (str ''docker_containers'') = Some (run_output sh cmd_docker_ps)
   \<and> map_of (fst (collect sh tr)) (str ''system_resources'') =
        Some (join [10]
           [str ''Memory: '' @ run_output sh cmd_mem,
            str ''Swap:   '' @ run_output sh cmd_swap,
            str ''Disk:   '' @ run_output sh cmd_disk,
            str ''Load:   '' @ run_output sh cmd_load,
            str ''Uptime: '' @ run_output sh cmd_uptime])
   \<and> map_of (fst (collect sh tr)) (str ''network_security'') =
        Some (join [10]
           [str ''TCP stats:      '' @ run_output sh cmd_tcp_total,
            str ''Established:    '' @ run_output sh cmd_tcp_estab @ str '' connections'',
            str ''TIME_WAIT:      '' @ run_output sh cmd_tcp_timewait,
            str ''SYN_RECV:       '' @ run_output sh cmd_tcp_synrecv @ str ''  '' @ [8592]
              @ str '' >50 '' @ [1084, 1086, 1078, 1077, 1090] @ str '' ''
              @ [1073, 1099, 1090, 1100] @ str '' SYN flood'',
            str ''Top source IPs: '' @ [10] @ or_else (run_output sh cmd_top_ips) (str ''(none)''),
            str ''SSH failed auth (1h): '' @ run_output sh cmd_ssh_fails,
            str ''fail2ban status:'' @ [10]
              @ or_else (run_output sh cmd_fail2ban) (str ''(fail2ban not available)''),
            str ''fail2ban events (1h):'' @ [10]
              @ or_else (run_output sh cmd_fail2ban_log) (str ''(no events)'')])"
  unfolding collect_eq fst_conv
  by (simp add: run_output_empty_iff or_else_def del: join.simps set_append)

text \<open>With commands that fail and print white space only, the six fallbacks are stored.\<close>

theorem collect_fallbacks_witness:
  "run_output blank_shell cmd_docker_stats = []
   \<and> returncode (blank_shell cmd_docker_stats) = 1
   \<and> map_of (fst (collect blank_shell [])) (str ''docker_stats'') = Some (str ''(no containers running)'')
   \<and> map_of (fst (collect blank_shell [])) (str ''openclaw_logs'') = Some (str ''(no logs)'')
   \<and> map_of (fst (collect blank_shell [])) (str ''established_connections'') = Some (str ''(none)'')
   \<and> map_of (fst (collect blank_shell [])) (str ''system_errors'') = Some (str ''(none)'')
   \<and> map_of (fst (collect blank_shell [])) (str ''monitor_log'') = Some (str ''(empty)'')
   \<and> map_of (fst (collect blank_shell [])) (str ''backup_log'') = Some (str ''(empty)'')
   \<and> map_of (fst (collect blank_shell [])) (str ''docker_containers'') = Some []"
  using collect_fallbacks [of blank_shell cmd_docker_stats "[]"]
  by (simp add: run_output_blank_shell blank_shell_def)

text \<open>
  The claim as stated (every section stores a fallback string when its probe yields nothing)
  fails for \<open>docker_containers\<close>: the command fails, prints white space only, and the section
  holds the empty string, which is none of the fallback strings of the program.
\<close>

theorem collect_fallbacks_counterexample:
  "returncode (blank_shell cmd_docker_ps) \<noteq> 0
   \<and> strip (stdout (blank_shell cmd_docker_ps) @ stderr (blank_shell cmd_docker_ps)) = []
   \<and> map_of (fst (collect blank_shell [])) (str ''docker_containers'') = Some []
   \<and> [] \<notin> {str ''(none)'', str ''(empty)'', str ''(no containers running)'', str ''(no logs)'',
             str ''(fail2ban not available)'', str ''(no events)''}"
  using run_output_blank_shell [of cmd_docker_ps]
  by (simp add: collect_eq run_output_def blank_shell_def del: join.simps)

subsection \<open>C3\<close>

text \<open>
  C3. \<open>build_prompt\<close> is a function of the snapshot and the timestamp alone (it takes no
  other argument and reads no state), so equal inputs give equal texts. Changing the content
  of one section from \<open>c\<close> to \<open>c'\<close> changes the result only inside that section's block: both
  results are the same prefix (the preamble, the blocks of the sections before, and the
  delimiter line of the section), then the content, then the same suffix (the blocks of the
  sections after).
\<close>

theorem build_prompt_section_local:
  "build_prompt (xs @ (t, c) # ys) now =
     (build_prompt xs now @ [10] @ str ''=== '' @ t @ str '' ==='' @ [10]) @ c @
     ([10] @ join [10] ([] # add_sections ys []))
   \<and> build_prompt (xs @ (t, c') # ys) now =
     (build_prompt xs now @ [10] @ str ''=== '' @ t @ str '' ==='' @ [10]) @ c' @
     ([10] @ join [10] ([] # add_sections ys []))"
  by (simp only: build_prompt_split simp_thms)

subsection \<open>C4\<close>

text \<open>
  C4. For every snapshot and timestamp, the lines of the prompt are the preamble followed,
  for each section in snapshot order, by the delimiter line \<open>=== title ===\<close>, the content and
  an empty line; in the joined text every delimiter line is followed at once by a newline and
  the section's content. For the snapshot of \<open>collect\<close>, the lines at the nine delimiter
  positions after the preamble are the delimiters of the nine keys, in the fixed order.
\<close>

theorem build_prompt_sections:
  "add_sections sections (preamble now) =
     preamble now @
     concat (map (\<lambda>(t, c). [str ''=== '' @ t @ str '' ==='', c, []]) sections)
   \<and> build_prompt sections now =
     build_prompt [] now @
     concat (map (\<lambda>(t, c). [10] @ str ''=== '' @ t @ str '' ==='' @ [10] @ c @ [10]) sections)
   \<and> map (\<lambda>i. add_sections (fst (collect sh tr)) (preamble now) ! (length (preamble now) + 3 * i))
        [0..<9]
     = map (\<lambda>t. str ''=== '' @ t @ str '' ==='')
        [str ''docker_containers'', str ''docker_stats'', str ''openclaw_logs'',
         str ''system_resources'', str ''established_connections'', str ''network_security'',
         str ''system_errors'', str ''monitor_log'', str ''backup_log'']"
  using add_sections_eq [of sections "preamble now"] build_prompt_eq [of sections now]
    collect_delimiters [of sh tr "preamble now"]
  by (simp only: simp_thms)

subsection \<open>C5\<close>

text \<open>
  C5. A text of length \<open>L\<close> passed to \<open>tg\<close> is split into \<open>ceil(L / 4000)\<close> chunks, each of at
  most 4000 characters, whose concatenation in order is the text. \<open>tg\<close> posts the chunks in
  this order: what it has posted is always a prefix of the chunk list, and all of it when
  \<open>tg\<close> returns (no request raised).
\<close>

theorem tg_chunking:
  "int (length (chunks msg)) = \<lceil>real (length msg) / 4000\<rceil>
   \<and> (\<forall>c \<in> set (chunks msg). length c \<le> 4000)
   \<and> concat (chunks msg) = msg
   \<and> (\<exists>k\<le>length (chunks msg). posted (snd (tg api msg tr)) = posted tr @ take k (chunks msg))
   \<and> (fst (tg api msg tr) = Inr () \<longrightarrow> posted (snd (tg api msg tr)) = posted tr @ chunks msg)"
  using tg_posted_prefix [of msg api tr]
  by (simp add: length_chunks ceiling_div_4000 length_chunk_le concat_chunks tg_returns_posted)

text \<open>A text of 9000 characters and a Telegram that accepts every request.\<close>

theorem tg_chunking_witness:
  "int (length (chunks (replicate 9000 (120::nat)))) = 3
   \<and> replicate 1000 120 \<in> set (chunks (replicate 9000 (120::nat)))
   \<and> length (replicate 1000 (120::nat)) \<le> 4000
   \<and> concat (chunks (replicate 9000 (120::nat))) = replicate 9000 120
   \<and> fst (tg (\<lambda>h c. Json True []) (replicate 9000 120) []) = Inr ()
   \<and> posted (snd (tg (\<lambda>h c. Json True []) (replicate 9000 120) []))
       = [replicate 4000 120, replicate 4000 120, replicate 1000 120]"
proof -
  have "fst (tg (\<lambda>h c. Json True []) (replicate 9000 120) []) = Inr ()"
    by (rule tg_no_raise) simp
  then show ?thesis
    using tg_chunking [of "replicate 9000 120" "\<lambda>h c. Json True []" "[]"]
    by (simp add: chunks_replicate_9000)
qed

subsection \<open>C6\<close>

text \<open>
  C6 (as amended). A text of exactly 9000 characters is split into chunks of sizes 4000, 4000
  and 1000. On the success path the text passed to \<open>tg\<close> is the report behind a header of 31
  characters and the timestamp; with a report of exactly 9000 characters and the 16-character
  timestamp \<open>YYYY-MM-DD HH:MM\<close>, the chunks posted have sizes 4000, 4000 and 1047.
\<close>

theorem report_9000_chunks:
  assumes "fst (main w) = Returned"
    and "load_api_key (config_file w) = Inr key"
    and "claude w key
        (build_prompt (fst (collect (shell_of w) [Log (str ''digest started'')])) (clock w))
        = Inr report"
    and "length report = 9000"
    and "length (clock w) = 16"
  shows "(\<forall>msg :: pystr. length msg = 9000 \<longrightarrow> map length (chunks msg) = [4000, 4000, 1000])
    \<and> map length (posted (snd (main w))) = [4000, 4000, 1047]"
proof -
  obtain key' report' where
    "load_api_key (config_file w) = Inr key'"
    "claude w key'
       (build_prompt (fst (collect (shell_of w) [Log (str ''digest started'')])) (clock w))
       = Inr report'"
    and p: "posted (snd (main w)) =
       chunks ([128202] @ str '' <b>Hourly digest</b> '' @ [8212] @ str '' '' @ clock w
          @ str '' UTC'' @ [10, 10] @ report')"
    using assms(1) by (rule main_success_trace)
  with assms(2,3) have "report' = report" by simp
  with assms(4,5) have "length ([128202] @ str '' <b>Hourly digest</b> '' @ [8212] @ str '' ''
      @ clock w @ str '' UTC'' @ [10, 10] @ report') = 9047"
    by simp
  then have "map length (posted (snd (main w))) = [4000, 4000, 1047]"
    unfolding p by (rule sizes_9047)
  moreover have "\<forall>msg :: pystr. length msg = 9000 \<longrightarrow> map length (chunks msg) = [4000, 4000, 1000]"
    by (simp add: sizes_9000)
  ultimately show ?thesis by blast
qed

text \<open>The run of \<open>world_9000\<close> satisfies the hypotheses.\<close>

theorem report_9000_chunks_witness:
  "fst (main world_9000) = Returned
   \<and> load_api_key (config_file world_9000) = Inr (str ''sk-key'')
   \<and> length (replicate 9000 (120::nat)) = 9000
   \<and> length (clock world_9000) = 16
   \<and> map length (chunks (replicate 9000 (120::nat))) = [4000, 4000, 1000]
   \<and> map length (posted (snd (main world_9000))) = [4000, 4000, 1047]"
  using report_9000_chunks [OF main_world_9000, of "str ''sk-key''" "replicate 9000 120"]
    main_world_9000
  by (simp add: world_9000_simps)

text \<open>
  The claim as stated fails on \<open>world_9000\<close>: the summarizer returns 9000 characters, the run
  succeeds, and the third chunk has 1047 characters, not 1000.
\<close>

theorem report_9000_chunks_counterexample:
  "claude world_9000 (str ''sk-key'')
       (build_prompt (fst (collect (shell_of world_9000) [Log (str ''digest started'')]))
          (clock world_9000)) = Inr (replicate 9000 120)
   \<and> length (replicate 9000 (120::nat)) = 9000
   \<and> fst (main world_9000) = Returned
   \<and> map length (posted (snd (main world_9000))) = [4000, 4000, 1047]
   \<and> map length (posted (snd (main world_9000))) \<noteq> [4000, 4000, 1000]"
  by (simp add: posted_world_9000 main_world_9000 world_9000_simps)

subsection \<open>C7\<close>



subsection \<open>C8\<close>




subsection \<open>C9\<close>

text \<open>
  C9. Whenever a chunk posted by \<open>tg\<close> gets a JSON reply whose \<open>ok\<close> is false, the next event
  is the log line \<open>TG error: r\<close>; and as long as no request raises, whatever the \<open>ok\<close> fields
  say, \<open>tg\<close> returns normally and has posted every chunk, in order.
\<close>

theorem tg_reply_not_ok:
  "(snd (tg api msg tr) = h @ Post c # rest \<and> length tr \<le> length h \<and> api h c = Json False r
      \<longrightarrow> (\<exists>rest'. rest = Log (str ''TG error: '' @ r) # rest'))
   \<and> ((\<forall>h c e. api h c \<noteq> Raises e)
      \<longrightarrow> fst (tg api msg tr) = Inr () \<and> posted (snd (tg api msg tr)) = posted tr @ chunks msg)"
  using tg_logs_not_ok [of api msg tr h c rest r] tg_no_raise [of api msg tr]
    tg_returns_posted [of api msg tr]
  by blast

text \<open>
  Three chunks, each answered with \<open>ok\<close> false: each is followed by its log line and the next
  chunk is still posted.
\<close>

theorem tg_reply_not_ok_witness:
  "snd (tg (\<lambda>h c. Json False (str ''{}'')) (replicate 9000 120) [])
     = [Tg (replicate 9000 120)] @ Post (replicate 4000 120) #
         [Log (str ''TG error: '' @ str ''{}''), Post (replicate 4000 120),
          Log (str ''TG error: '' @ str ''{}''), Post (replicate 1000 120),
          Log (str ''TG error: '' @ str ''{}'')]
   \<and> fst (tg (\<lambda>h c. Json False (str ''{}'')) (replicate 9000 120) []) = Inr ()
   \<and> posted (snd (tg (\<lambda>h c. Json False (str ''{}'')) (replicate 9000 120) []))
       = [replicate 4000 120, replicate 4000 120, replicate 1000 120]"
  using tg_reply_not_ok [of "\<lambda>h c. Json False (str ''{}'')" "replicate 9000 120" "[]"
      "[Tg (replicate 9000 120)]" "replicate 4000 120"
      "[Log (str ''TG error: '' @ str ''{}''), Post (replicate 4000 120),
          Log (str ''TG error: '' @ str ''{}''), Post (replicate 1000 120),
          Log (str ''TG error: '' @ str ''{}'')]" "str ''{}''"]
  by (simp add: tg_def chunks_replicate_9000 log_def)

subsection \<open>C10\<close>

text \<open>
  C10. On the success path (\<open>main\<close> returns), \<open>tg\<close> is called exactly once, with the header
  \<open>[chart emoji] <b>Hourly digest</b> [em dash] \<close>, the timestamp of the run, \<open> UTC\<close>, two
  newlines and then the report; this text is never the report alone, and the chunks posted
  are the chunks of this prefixed text.
\<close>

theorem success_path_text:
  assumes "fst (main w) = Returned"
  shows "\<exists>key report.
      load_api_key (config_file w) = Inr key
    \<and> claude w key
        (build_prompt (fst (collect (shell_of w) [Log (str ''digest started'')])) (clock w))
        = Inr report
    \<and> tg_calls (snd (main w)) =
        [[128202] @ str '' <b>Hourly digest</b> '' @ [8212] @ str '' '' @ clock w
           @ str '' UTC'' @ [10, 10] @ report]
    \<and> posted (snd (main w)) =
        chunks ([128202] @ str '' <b>Hourly digest</b> '' @ [8212] @ str '' '' @ clock w
           @ str '' UTC'' @ [10, 10] @ report)
    \<and> [128202] @ str '' <b>Hourly digest</b> '' @ [8212] @ str '' '' @ clock w
           @ str '' UTC'' @ [10, 10] @ report \<noteq> report"
  using main_success_trace [OF assms] digest_message_not_report by metis

text \<open>The run of \<open>world_9000\<close> returns.\<close>

theorem success_path_text_witness:
  "fst (main world_9000) = Returned
   \<and> tg_calls (snd (main world_9000)) =
       [[128202] @ str '' <b>Hourly digest</b> '' @ [8212] @ str '' '' @ str ''2024-05-01 12:00''
          @ str '' UTC'' @ [10, 10] @ replicate 9000 120]
   \<and> posted (snd (main world_9000)) =
       chunks ([128202] @ str '' <b>Hourly digest</b> '' @ [8212] @ str '' ''
          @ str ''2024-05-01 12:00'' @ str '' UTC'' @ [10, 10] @ replicate 9000 120)"
  using success_path_text [OF main_world_9000] main_world_9000
  by (auto simp add: world_9000_simps)

end
